theory Spec2Isabelle
  imports Main
begin

section \<open>JavaScript values and insertion-ordered maps\<close>

text \<open>
  The values that travel through the gateway are parsed JSON. Numbers are kept as
  integers: the only thing the modelled code asks of a number is whether it is zero.
  \<open>JNull\<close> stands for both \<open>null\<close> and \<open>undefined\<close> where a value is stored; a property
  that is not there at all is \<open>None\<close> of an option.
\<close>

datatype json =
    JNull
  | JBool bool
  | JNum int
  | JStr string
  | JArr "json list"
  | JObj "(string \<times> json) list"

text \<open>JavaScript truthiness (\<open>!v\<close> is its negation): objects and arrays are always truthy.\<close>

fun truthy :: "json \<Rightarrow> bool" where
  "truthy JNull = False"
| "truthy (JBool b) = b"
| "truthy (JNum n) = (n \<noteq> 0)"
| "truthy (JStr s) = (s \<noteq> [])"
| "truthy (JArr _) = True"
| "truthy (JObj _) = True"

text \<open>
  A JavaScript \<open>Map\<close> keeps its entries in insertion order, one entry per key; \<open>set\<close> on
  a key that is there replaces the value in place, \<open>delete\<close> removes the entry, and
  iteration (\<open>entries()\<close>, \<open>keys()\<close>, \<open>values()\<close>) follows the order of the entries.
\<close>

type_synonym ('k, 'v) jsmap = "('k \<times> 'v) list"

definition jsmap_get :: "'k \<Rightarrow> ('k, 'v) jsmap \<Rightarrow> 'v option" where
  "jsmap_get k m = map_of m k"

fun jsmap_set :: "'k \<Rightarrow> 'v \<Rightarrow> ('k, 'v) jsmap \<Rightarrow> ('k, 'v) jsmap" where
  "jsmap_set k v [] = [(k, v)]"
| "jsmap_set k v ((k', v') # m) =
     (if k' = k then (k, v) # m else (k', v') # jsmap_set k v m)"

definition jsmap_delete :: "'k \<Rightarrow> ('k, 'v) jsmap \<Rightarrow> ('k, 'v) jsmap" where
  "jsmap_delete k m = filter (\<lambda>e. fst e \<noteq> k) m"

text \<open>\<open>new Map(entries)\<close> sets the entries one after the other.\<close>

definition jsmap_new :: "('k \<times> 'v) list \<Rightarrow> ('k, 'v) jsmap" where
  "jsmap_new es = foldl (\<lambda>m e. jsmap_set (fst e) (snd e) m) [] es"

definition jsmap_keys :: "('k, 'v) jsmap \<Rightarrow> 'k list" where
  "jsmap_keys m = map fst m"

definition jsmap_values :: "('k, 'v) jsmap \<Rightarrow> 'v list" where
  "jsmap_values m = map snd m"

definition jsmap_size :: "('k, 'v) jsmap \<Rightarrow> nat" where
  "jsmap_size m = length m"

section \<open>API key authentication (\<open>APIKeyAuth\<close>)\<close>

text \<open>
  \<open>response.data\<close> of the validation endpoint. \<open>valid\<close> is the truthiness of
  \<open>response.data.valid\<close>; \<open>user\<close> is \<open>None\<close> when the body carries no user object.
\<close>

record user_info =
  user_id :: string

record validation_body =
  valid :: bool
  user :: "user_info option"
  key_id :: string
  scopes :: "string list"
  rate_limit_tier :: string
  reason :: string

text \<open>The cached record \<open>authData\<close>; \<open>timestamp\<close> is \<open>Date.now()\<close> in milliseconds.\<close>

record auth_data =
  auth_user :: "user_info option"
  keyId :: string
  auth_scopes :: "string list"
  rateLimitTier :: string
  timestamp :: int

text \<open>
  How \<open>await this.apiClient.post(...)\<close> ends: the promise resolves with a response whose
  \<open>data\<close> is the parsed body (\<open>None\<close>: \<open>data\<close> is \<open>null\<close>), or it rejects with an error
  whose \<open>error.response?.status\<close> is the given status (\<open>None\<close>: no response at all, as
  for a timeout or a refused connection).
\<close>

datatype upstream_outcome =
    Resolved "validation_body option"
  | Rejected "nat option"

text \<open>
  The state of the global \<open>apiKeyAuth\<close> instance. \<open>upstream\<close> is not a field of the
  class: it records, in order, the \<open>api_key\<close> of every POST issued to the validation
  endpoint, so that the calls the identity service receives can be counted.
\<close>

record APIKeyAuth =
  cache :: "(string, auth_data) jsmap"
  cacheTimeout :: int
  upstream :: "string list"

text \<open>The cache check that opens \<open>validateAPIKey\<close>.\<close>

definition cache_check :: "int \<Rightarrow> string \<Rightarrow> APIKeyAuth \<Rightarrow> auth_data option" where
  "cache_check now apiKey s =
     (case jsmap_get apiKey (cache s) of
        None \<Rightarrow> None
      | Some cached \<Rightarrow>
          if now - timestamp cached < cacheTimeout s then Some cached else None)"

text \<open>
  \<open>validateAPIKey\<close> is an async function with one \<open>await\<close>. On the single-threaded event
  loop the code before the \<open>await\<close> runs without interruption, and so does the code after
  it. \<open>validate_begin\<close> is the part up to the \<open>await\<close>: a cache hit returns at once, a miss
  issues the POST. \<open>validate_resume\<close> is the part that runs when the POST has ended.
\<close>

datatype auth_error = BackendUnavailable

definition validate_begin ::
  "int \<Rightarrow> string \<Rightarrow> APIKeyAuth \<Rightarrow> auth_data option \<times> APIKeyAuth" where
  "validate_begin now apiKey s =
     (case cache_check now apiKey s of
        Some cached \<Rightarrow> (Some cached, s)
      | None \<Rightarrow> (None, s\<lparr>upstream := upstream s @ [apiKey]\<rparr>))"

text \<open>
  The result is \<open>Inr (Some authData)\<close>, \<open>Inr None\<close> for \<open>return null\<close>, and
  \<open>Inl BackendUnavailable\<close> for \<open>throw new Error('Backend validation service unavailable')\<close>.
  A \<open>TypeError\<close> raised inside the \<open>try\<close> (reading \<open>valid\<close> of a \<open>null\<close> body, or
  \<open>authData.user.id\<close> for the log line when the body has no user) is caught by the same
  \<open>catch\<close>; it has no \<open>response\<close>, so it ends in the \<open>throw\<close> as well. In the second case
  \<open>this.cache.set\<close> has already run.
\<close>

definition validate_resume ::
  "int \<Rightarrow> string \<Rightarrow> upstream_outcome \<Rightarrow> APIKeyAuth \<Rightarrow>
     (auth_error + auth_data option) \<times> APIKeyAuth" where
  "validate_resume now apiKey outcome s =
     (case outcome of
        Resolved None \<Rightarrow> (Inl BackendUnavailable, s)
      | Resolved (Some d) \<Rightarrow>
          if valid d then
            let authData = \<lparr>auth_user = user d, keyId = key_id d, auth_scopes = scopes d,
                             rateLimitTier = rate_limit_tier d, timestamp = now\<rparr>;
                s' = s\<lparr>cache := jsmap_set apiKey authData (cache s)\<rparr>
            in (case user d of
                  None \<Rightarrow> (Inl BackendUnavailable, s')
                | Some u \<Rightarrow> (Inr (Some authData), s'))
          else (Inr None, s)
      | Rejected st \<Rightarrow>
          if st = Some 401 then (Inr None, s) else (Inl BackendUnavailable, s))"

text \<open>
  One whole call with nothing else running in between: \<open>now\<close> is the clock at the cache
  check, \<open>now'\<close> the clock when the response is handled.
\<close>

definition validateAPIKey ::
  "int \<Rightarrow> int \<Rightarrow> string \<Rightarrow> upstream_outcome \<Rightarrow> APIKeyAuth \<Rightarrow>
     (auth_error + auth_data option) \<times> APIKeyAuth" where
  "validateAPIKey now now' apiKey outcome s =
     (case validate_begin now apiKey s of
        (Some cached, s') \<Rightarrow> (Inr (Some cached), s')
      | (None, s') \<Rightarrow> validate_resume now' apiKey outcome s')"

definition clearCache :: "string \<Rightarrow> APIKeyAuth \<Rightarrow> APIKeyAuth" where
  "clearCache apiKey s = s\<lparr>cache := jsmap_delete apiKey (cache s)\<rparr>"

text \<open>
  \<open>cleanupCache\<close>: the loop over \<open>this.cache.entries()\<close>. Deleting the entry just visited
  does not disturb the iteration of a \<open>Map\<close>, so every entry is visited once.
\<close>

fun cleanup_loop :: "int \<Rightarrow> int \<Rightarrow> (string, auth_data) jsmap \<Rightarrow> (string, auth_data) jsmap" where
  "cleanup_loop now ttl [] = []"
| "cleanup_loop now ttl ((key, data) # rest) =
     (if now - timestamp data > ttl then cleanup_loop now ttl rest
      else (key, data) # cleanup_loop now ttl rest)"

definition cleanupCache :: "int \<Rightarrow> APIKeyAuth \<Rightarrow> APIKeyAuth" where
  "cleanupCache now s = s\<lparr>cache := cleanup_loop now (cacheTimeout s) (cache s)\<rparr>"

definition getCacheStats :: "APIKeyAuth \<Rightarrow> nat \<times> int" where
  "getCacheStats s = (jsmap_size (cache s), cacheTimeout s)"

text \<open>
  \<open>extractAPIKey(headers)\<close>. A header object gives, for a name, the header's value or
  nothing. \<open>a || b\<close> on two such lookups is \<open>a\<close> when \<open>a\<close> is a non-empty string and \<open>b\<close>
  otherwise; the \<open>if (x)\<close> that follows asks for a non-empty string again.
\<close>

type_synonym headers = "string \<Rightarrow> string option"

definition js_or :: "string option \<Rightarrow> string option \<Rightarrow> string option" where
  "js_or a b = (case a of None \<Rightarrow> b | Some v \<Rightarrow> if v \<noteq> [] then Some v else b)"

definition nonempty :: "string option \<Rightarrow> string option" where
  "nonempty a = (case a of None \<Rightarrow> None | Some v \<Rightarrow> if v \<noteq> [] then Some v else None)"

definition startsWith :: "string \<Rightarrow> string \<Rightarrow> bool" where
  "startsWith s p = (take (length p) s = p)"

definition extractAPIKey :: "headers \<Rightarrow> string option" where
  "extractAPIKey hs =
     (let fromAuth =
            (case nonempty (js_or (hs ''authorization'') (hs ''Authorization'')) of
               None \<Rightarrow> None
             | Some authHeader \<Rightarrow>
                 if startsWith authHeader ''Bearer '' then Some (drop 7 authHeader)
                 else if startsWith authHeader ''gcp_'' then Some authHeader
                 else None)
      in case fromAuth of
           Some k \<Rightarrow> Some k
         | None \<Rightarrow> nonempty (js_or (hs ''x-api-key'') (hs ''X-API-Key'')))"

section \<open>Tools (\<open>BaseTool\<close>, \<open>ToolError\<close>)\<close>

text \<open>The texts of \<open>CONFIG.ERRORS\<close>, as the bytes of their UTF-8 encoding.\<close>

definition a_acute :: string where "a_acute = [CHR 0xC3, CHR 0xA1]"
definition e_acute :: string where "e_acute = [CHR 0xC3, CHR 0xA9]"
definition i_acute :: string where "i_acute = [CHR 0xC3, CHR 0xAD]"
definition o_acute :: string where "o_acute = [CHR 0xC3, CHR 0xB3]"
definition u_acute :: string where "u_acute = [CHR 0xC3, CHR 0xBA]"

definition AUTHENTICATION_FAILED :: string where
  "AUTHENTICATION_FAILED =
     ''Autenticaci'' @ o_acute @ ''n fallida. Verific'' @ a_acute @ '' tu API key.''"

definition INSUFFICIENT_PERMISSIONS :: string where
  "INSUFFICIENT_PERMISSIONS =
     ''No ten'' @ e_acute @ ''s permisos para realizar esta acci'' @ o_acute @ ''n.''"

definition SHEET_NOT_FOUND :: string where
  "SHEET_NOT_FOUND = ''Hoja no encontrada o sin acceso.''"

definition INVALID_PARAMETERS :: string where
  "INVALID_PARAMETERS =
     ''Par'' @ a_acute @ ''metros inv'' @ a_acute @ ''lidos en la petici'' @ o_acute @ ''n.''"

definition SERVER_ERROR :: string where
  "SERVER_ERROR =
     ''Error interno del servidor. Intent'' @ a_acute @ '' nuevamente.''"

definition RATE_LIMIT_EXCEEDED :: string where
  "RATE_LIMIT_EXCEEDED =
     ''L'' @ i_acute @ ''mite de peticiones excedido. Esper'' @ a_acute @ '' un momento.''"

text \<open>
  What a tool can throw: a \<open>ToolError(message, statusCode, details)\<close>, or some other
  \<open>Error\<close>, which has a message and neither \<open>statusCode\<close> nor \<open>details\<close>.
  \<open>details\<close> is \<open>null\<close>, the \<open>{ error_code: 'NETWORK_ERROR' }\<close> object, or the body of the
  backend's error response, of which the model keeps \<open>message_for_user\<close>.
\<close>

datatype details =
    NoDetails
  | NetworkErrorCode
  | ResponseData "string option"

datatype thrown =
    ToolError string nat details
  | Error string

fun message :: "thrown \<Rightarrow> string" where
  "message (ToolError m c d) = m"
| "message (Error m) = m"

fun statusCode :: "thrown \<Rightarrow> nat option" where
  "statusCode (ToolError m c d) = Some c"
| "statusCode (Error m) = None"

fun error_details :: "thrown \<Rightarrow> details" where
  "error_details (ToolError m c d) = d"
| "error_details (Error m) = NoDetails"

text \<open>\<open>getErrorMessage(status, errorData)\<close>.\<close>

definition getErrorMessage :: "nat \<Rightarrow> string option \<Rightarrow> string" where
  "getErrorMessage status message_for_user =
     (if status = 401 then AUTHENTICATION_FAILED
      else if status = 403 then INSUFFICIENT_PERMISSIONS
      else if status = 404 then SHEET_NOT_FOUND
      else if status = 429 then RATE_LIMIT_EXCEEDED
      else if status = 400 then
        (case message_for_user of
           None \<Rightarrow> INVALID_PARAMETERS
         | Some m \<Rightarrow> if m \<noteq> [] then m else INVALID_PARAMETERS)
      else SERVER_ERROR)"

text \<open>
  How the backend call of \<open>makeAgentAPIRequest\<close> ends, and what the method makes of it:
  the data on success, a \<open>ToolError\<close> with the backend's status for an HTTP error response,
  a \<open>ToolError\<close> with status 500 when there is no response. The endpoint, the method,
  the request data and the key id only shape the request and the log lines. Without a
  user object, \<open>user.id\<close> raises in \<open>createUserToken\<close> (which rethrows a \<open>ToolError\<close>) and
  raises again in the \<open>catch\<close> block of \<open>makeAgentAPIRequest\<close>, at \<open>logToolUsage\<close>; this
  second \<open>TypeError\<close> is what leaves the method. The text of a \<open>TypeError\<close> is the engine's
  and is not modelled.
\<close>

definition TypeError :: thrown where
  "TypeError = Error ''TypeError''"

datatype 'd backend_outcome =
    BackendData 'd
  | BackendStatus nat "string option"
  | BackendNoResponse

definition makeAgentAPIRequest :: "'d backend_outcome \<Rightarrow> user_info option \<Rightarrow> thrown + 'd" where
  "makeAgentAPIRequest outcome usr =
     (case usr of
        None \<Rightarrow> Inl TypeError
      | Some u \<Rightarrow>
          (case outcome of
             BackendData d \<Rightarrow> Inr d
           | BackendStatus status mfu \<Rightarrow>
               Inl (ToolError (getErrorMessage status mfu) status (ResponseData mfu))
           | BackendNoResponse \<Rightarrow> Inl (ToolError SERVER_ERROR 500 NetworkErrorCode)))"

text \<open>
  \<open>validateParams(params, requiredFields)\<close>. \<open>params field\<close> is the value of
  \<open>params[field]\<close>, \<open>None\<close> when that is \<open>undefined\<close>. The message text is the template
  literal of the source, byte for byte.
\<close>

type_synonym params = "string \<Rightarrow> json option"

definition falsy :: "json option \<Rightarrow> bool" where
  "falsy v = (case v of None \<Rightarrow> True | Some j \<Rightarrow> \<not> truthy j)"

fun join :: "string \<Rightarrow> string list \<Rightarrow> string" where
  "join sep [] = []"
| "join sep [x] = x"
| "join sep (x # y # ys) = x @ sep @ join sep (y # ys)"

definition missing_prefix :: string where
  "missing_prefix =
     ''Par'' @ [CHR 0xE2, CHR 0x88, CHR 0x9A, CHR 0xC2, CHR 0xB0] @
     ''metros requeridos faltantes: ''"

definition validateParams :: "params \<Rightarrow> string list \<Rightarrow> thrown + unit" where
  "validateParams ps requiredFields =
     (let missing = filter (\<lambda>field. falsy (ps field)) requiredFields
      in if length missing > 0
         then Inl (ToolError (missing_prefix @ join '', '' missing) 400 NoDetails)
         else Inr ())"

text \<open>
  \<open>GetSheetSummaryTool.execute\<close>: the parameters are validated, then the sheet's state is
  requested; either step can throw. What follows (the three detail requests, which catch
  their own errors, and the formatting of the answer, which reads fields of the state
  response and throws when that is \<open>null\<close>) is not modelled in detail: \<open>summary\<close> stands
  for it, and it returns the summary or throws.
\<close>

definition GetSheetSummaryTool_execute ::
  "'d backend_outcome \<Rightarrow> ('d \<Rightarrow> thrown + 'r) \<Rightarrow> params \<Rightarrow> user_info option \<Rightarrow>
     thrown + 'r" where
  "GetSheetSummaryTool_execute stateOutcome summary ps usr =
     (case validateParams ps [''sheet_id''] of
        Inl e \<Rightarrow> Inl e
      | Inr _ \<Rightarrow>
          (case makeAgentAPIRequest stateOutcome usr of
             Inl e \<Rightarrow> Inl e
           | Inr stateResponse \<Rightarrow> summary stateResponse))"

text \<open>
  A tool object: the two constructor arguments and what its \<open>getInputSchema()\<close> returns.
  \<open>getSchema()\<close> builds the descriptor of the discovery responses from them.
\<close>

record tool =
  name :: string
  description :: string
  getInputSchema :: json

record tool_schema =
  schema_name :: string
  schema_description :: string
  inputSchema :: json

definition getSchema :: "tool \<Rightarrow> tool_schema" where
  "getSchema t =
     \<lparr>schema_name = name t, schema_description = description t,
      inputSchema = getInputSchema t\<rparr>"

section \<open>The HTTP server (\<open>StandaloneMCPServer\<close>)\<close>

text \<open>
  The two tools the constructor registers, \<open>new Map([['list_my_sheets', ...],
  ['get_sheet_summary', ...]])\<close>. The input schema of \<open>list_my_sheets\<close> reads its limits from
  a configuration module that is not among the sources, so it is a parameter.
\<close>

definition ListMySheetsool :: "json \<Rightarrow> tool" where
  "ListMySheetsool listSchema =
     \<lparr>name = ''list_my_sheets'',
      description =
        ''Obtener todas las hojas de gastos del usuario. Incluye hojas propias, '' @
        ''compartidas y donde participa. '' @ [CHR 0xC3, CHR 0x9A] @
        ''til para ver un resumen de todas las hojas disponibles y sus estados.'',
      getInputSchema = listSchema\<rparr>"

definition GetSheetSummaryTool :: tool where
  "GetSheetSummaryTool =
     \<lparr>name = ''get_sheet_summary'',
      description =
        ''Obtener resumen detallado de una hoja de gastos espec'' @ i_acute @
        ''fica. Incluye informaci'' @ o_acute @
        ''n general, balance actual, participantes, '' @ u_acute @
        ''ltimos movimientos y pr'' @ o_acute @ ''ximas acciones recomendadas.'',
      getInputSchema =
        JObj [(''type'', JStr ''object''),
              (''properties'',
               JObj [(''sheet_id'',
                      JObj [(''type'', JStr ''string''),
                            (''description'',
                             JStr (''ID '' @ u_acute @
                                   ''nico de la hoja de gastos a consultar''))]),
                     (''include_suggestions'',
                      JObj [(''type'', JStr ''boolean''),
                            (''description'',
                             JStr (''Incluir sugerencias de pr'' @ o_acute @
                                   ''ximas acciones'')),
                            (''default'', JBool True)])]),
              (''required'', JArr [JStr ''sheet_id''])]\<rparr>"

definition server_tools :: "json \<Rightarrow> (string, tool) jsmap" where
  "server_tools listSchema =
     jsmap_new [(''list_my_sheets'', ListMySheetsool listSchema),
                (''get_sheet_summary'', GetSheetSummaryTool)]"

text \<open>
  \<open>parseInt(process.env.X) || d\<close>: the variable parses to an integer or to \<open>NaN\<close> (\<open>None\<close>);
  \<open>NaN\<close> and 0 are falsy and give the default.
\<close>

definition parseInt_or :: "int option \<Rightarrow> int \<Rightarrow> int" where
  "parseInt_or v d = (case v of None \<Rightarrow> d | Some n \<Rightarrow> if n \<noteq> 0 then n else d)"



definition API_KEY_CACHE_TTL :: "int option \<Rightarrow> int" where
  "API_KEY_CACHE_TTL env_ttl = parseInt_or env_ttl (5 * 60 * 1000)"









text \<open>
  The bodies of the JSON responses. Fields that only repeat the configuration or read the
  clock (\<open>environment\<close>, \<open>timestamp\<close>, \<open>execution_time_ms\<close>) are left out.
\<close>

datatype 'r body =
    RateLimitExceeded int
  | AuthenticationRequired
  | ServerError
  | Schema "tool_schema list"
  | Tools "tool_schema list" nat string
  | ToolNotFound string "string list"
  | ToolSuccess string 'r string
  | ToolFailure string string details
  | Initialized string "string list"

type_synonym 'r response = "nat \<times> 'r body"



text \<open>\<open>authenticateRequest(req)\<close>: every failure, a thrown one included, is \<open>null\<close>.\<close>

definition authenticateRequest ::
  "headers \<Rightarrow> int \<Rightarrow> int \<Rightarrow> upstream_outcome \<Rightarrow> APIKeyAuth \<Rightarrow>
     auth_data option \<times> APIKeyAuth" where
  "authenticateRequest hs now now' outcome s =
     (case extractAPIKey hs of
        None \<Rightarrow> (None, s)
      | Some apiKey \<Rightarrow>
          if apiKey = [] then (None, s)
          else
            (case validateAPIKey now now' apiKey outcome s of
               (Inr (Some authData), s') \<Rightarrow> (Some authData, s')
             | (Inr None, s') \<Rightarrow> (None, s')
             | (Inl err, s') \<Rightarrow> (None, s')))"

text \<open>\<open>GET /mcp/schema\<close> (no authentication).\<close>

definition schema_route :: "(string, tool) jsmap \<Rightarrow> 'r response" where
  "schema_route tools = (200, Schema (map getSchema (jsmap_values tools)))"

text \<open>
  \<open>GET /mcp/tools\<close>. Reading \<open>authData.user.id\<close> of a record without user raises inside
  the \<open>try\<close>; the \<open>catch\<close> answers 500.
\<close>

definition list_tools_route ::
  "(string, tool) jsmap \<Rightarrow> headers \<Rightarrow> int \<Rightarrow> int \<Rightarrow> upstream_outcome \<Rightarrow> APIKeyAuth \<Rightarrow>
     'r response \<times> APIKeyAuth" where
  "list_tools_route tools hs now now' outcome s =
     (case authenticateRequest hs now now' outcome s of
        (None, s') \<Rightarrow> ((401, AuthenticationRequired), s')
      | (Some authData, s') \<Rightarrow>
          (let ts = map getSchema (jsmap_values tools)
           in case auth_user authData of
                None \<Rightarrow> ((500, ServerError), s')
              | Some u \<Rightarrow> ((200, Tools ts (length ts) (user_id u)), s')))"

text \<open>\<open>POST /mcp/initialize\<close>.\<close>

definition initialize_route ::
  "headers \<Rightarrow> int \<Rightarrow> int \<Rightarrow> upstream_outcome \<Rightarrow> APIKeyAuth \<Rightarrow> 'r response \<times> APIKeyAuth" where
  "initialize_route hs now now' outcome s =
     (case authenticateRequest hs now now' outcome s of
        (None, s') \<Rightarrow> ((401, AuthenticationRequired), s')
      | (Some authData, s') \<Rightarrow>
          (case auth_user authData of
             None \<Rightarrow> ((500, ServerError), s')
           | Some u \<Rightarrow> ((200, Initialized (user_id u) (auth_scopes authData)), s')))"

text \<open>
  The \<open>catch\<close> of \<open>POST /mcp/tools/:toolName\<close>: \<open>error.statusCode || 500\<close> and
  \<open>error.message || 'Tool execution failed'\<close>, with the error's \<open>details\<close> (the response
  leaves the field out when they are falsy). It touches nothing but the response.
\<close>

definition tool_failure :: "string \<Rightarrow> thrown \<Rightarrow> 'r response" where
  "tool_failure toolName err =
     ((case statusCode err of None \<Rightarrow> 500 | Some c \<Rightarrow> if c \<noteq> 0 then c else 500),
      ToolFailure (if message err \<noteq> [] then message err else ''Tool execution failed'')
        toolName (error_details err))"

text \<open>
  \<open>POST /mcp/tools/:toolName\<close>. \<open>args\<close> is \<open>req.body.arguments || req.body.args || {}\<close>,
  read from the parsed body before the \<open>try\<close>. \<open>exec tool args user\<close> is the run of
  \<open>tool.execute(args, authData.user, authData.keyId)\<close>, which depends on the backend's
  answers: it returns a result or throws. The key id only travels into a request header.
\<close>

definition call_tool_route ::
  "(string, tool) jsmap \<Rightarrow> (tool \<Rightarrow> 'a \<Rightarrow> user_info option \<Rightarrow> thrown + 'r) \<Rightarrow>
     headers \<Rightarrow> string \<Rightarrow> 'a \<Rightarrow> int \<Rightarrow> int \<Rightarrow> upstream_outcome \<Rightarrow> APIKeyAuth \<Rightarrow>
     'r response \<times> APIKeyAuth" where
  "call_tool_route tools exec hs toolName args now now' outcome s =
     (case authenticateRequest hs now now' outcome s of
        (None, s') \<Rightarrow> ((401, AuthenticationRequired), s')
      | (Some authData, s') \<Rightarrow>
          (case jsmap_get toolName tools of
             None \<Rightarrow> ((404, ToolNotFound toolName (jsmap_keys tools)), s')
           | Some tool \<Rightarrow>
               (case exec tool args (auth_user authData) of
                  Inl err \<Rightarrow> (tool_failure toolName err, s')
                | Inr result \<Rightarrow>
                    (case auth_user authData of
                       None \<Rightarrow> (tool_failure toolName TypeError, s')
                     | Some u \<Rightarrow> ((200, ToolSuccess toolName result (user_id u)), s')))))"

text \<open>
  Requests in flight together. The handlers of several requests with the same credential
  each run up to their \<open>await\<close> before the answer to any of them has arrived:
  \<open>begin_all\<close> runs the first part of \<open>validateAPIKey\<close> for each, at the given clock values,
  and returns what each found in the cache. \<open>resume_all\<close> then hands to each caller the
  answer to its own POST.
\<close>

fun begin_all :: "int list \<Rightarrow> string \<Rightarrow> APIKeyAuth \<Rightarrow> auth_data option list \<times> APIKeyAuth" where
  "begin_all [] apiKey s = ([], s)"
| "begin_all (now # nows) apiKey s =
     (case validate_begin now apiKey s of
        (r, s') \<Rightarrow> (case begin_all nows apiKey s' of (rs, s'') \<Rightarrow> (r # rs, s'')))"

fun resume_all ::
  "(int \<times> upstream_outcome) list \<Rightarrow> string \<Rightarrow> APIKeyAuth \<Rightarrow>
     (auth_error + auth_data option) list \<times> APIKeyAuth" where
  "resume_all [] apiKey s = ([], s)"
| "resume_all ((now, outcome) # rest) apiKey s =
     (case validate_resume now apiKey outcome s of
        (r, s') \<Rightarrow> (case resume_all rest apiKey s' of (rs, s'') \<Rightarrow> (r # rs, s'')))"

section \<open>The extraction order in the spec's words\<close>

text \<open>
  The spec describes credential extraction as a short list of strategies, tried in a fixed
  order, the first match winning: the \<open>Authorization\<close> header with the \<open>Bearer\<close> prefix
  (stripped), the \<open>Authorization\<close> header that is a raw \<open>gcp_\<close> key, the dedicated
  \<open>X-API-Key\<close> header. A header is read under its lower-case name first and then under its
  capitalised name, and a header with an empty value carries no credential.
\<close>

definition header_value :: "headers \<Rightarrow> string \<Rightarrow> string \<Rightarrow> string option" where
  "header_value hs lower capitalised =
     (case hs lower of
        Some v \<Rightarrow> if v \<noteq> [] then Some v else nonempty (hs capitalised)
      | None \<Rightarrow> nonempty (hs capitalised))"

definition bearer_prefixed :: "headers \<Rightarrow> string option" where
  "bearer_prefixed hs =
     (case header_value hs ''authorization'' ''Authorization'' of
        None \<Rightarrow> None
      | Some v \<Rightarrow> if startsWith v ''Bearer '' then Some (drop 7 v) else None)"

definition raw_prefixed :: "headers \<Rightarrow> string option" where
  "raw_prefixed hs =
     (case header_value hs ''authorization'' ''Authorization'' of
        None \<Rightarrow> None
      | Some v \<Rightarrow> if startsWith v ''gcp_'' then Some v else None)"

definition dedicated_header :: "headers \<Rightarrow> string option" where
  "dedicated_header hs = header_value hs ''x-api-key'' ''X-API-Key''"

fun first_match :: "(headers \<Rightarrow> string option) list \<Rightarrow> headers \<Rightarrow> string option" where
  "first_match [] hs = None"
| "first_match (strategy # rest) hs =
     (case strategy hs of Some k \<Rightarrow> Some k | None \<Rightarrow> first_match rest hs)"

section \<open>Sample values\<close>

text \<open>Concrete values on which the theorems below are instantiated.\<close>

definition sample_user :: user_info where
  "sample_user = \<lparr>user_id = ''u1''\<rparr>"

definition sample_auth :: auth_data where
  "sample_auth =
     \<lparr>auth_user = Some sample_user, keyId = ''k1'', auth_scopes = [''mcp:read''],
      rateLimitTier = ''standard'', timestamp = 0\<rparr>"

definition sample_state :: APIKeyAuth where
  "sample_state =
     \<lparr>cache = [(''gcp_valid1'', sample_auth)], cacheTimeout = API_KEY_CACHE_TTL None,
      upstream = []\<rparr>"

definition empty_state :: APIKeyAuth where
  "empty_state = \<lparr>cache = [], cacheTimeout = API_KEY_CACHE_TTL None, upstream = []\<rparr>"

definition valid_body :: validation_body where
  "valid_body =
     \<lparr>valid = True, user = Some sample_user, key_id = ''k1'', scopes = [''mcp:read''],
      rate_limit_tier = ''standard'', reason = []\<rparr>"

definition revoked_body :: validation_body where
  "revoked_body =
     \<lparr>valid = False, user = None, key_id = [], scopes = [], rate_limit_tier = [],
      reason = ''revoked''\<rparr>"

definition sample_headers :: headers where
  "sample_headers = Map.empty(''authorization'' \<mapsto> ''Bearer gcp_valid1'')"

definition sample_params :: params where
  "sample_params = Map.empty(''sheet_id'' \<mapsto> JStr ''sheet_1'')"


text \<open>A run of \<open>get_sheet_summary\<close> in which the backend answers the state request with 401.\<close>

definition backend_401_exec :: "tool \<Rightarrow> params \<Rightarrow> user_info option \<Rightarrow> thrown + string" where
  "backend_401_exec t ps usr =
     GetSheetSummaryTool_execute (BackendStatus 401 None)
       (\<lambda>stateResponse. Inr stateResponse) ps usr"

section \<open>Insertion-ordered maps\<close>

lemma jsmap_set_fresh:
  "k \<notin> fst ` set m \<Longrightarrow> jsmap_set k v m = m @ [(k, v)]"
  by (induction m) auto

lemma foldl_jsmap_set_distinct:
  "distinct (map fst (m @ es)) \<Longrightarrow>
   foldl (\<lambda>m e. jsmap_set (fst e) (snd e) m) m es = m @ es"
proof (induction es arbitrary: m)
  case Nil
  then show ?case by simp
next
  case (Cons e es)
  have fresh: "fst e \<notin> fst ` set m"
    using Cons.prems by auto
  have "distinct (map fst ((m @ [e]) @ es))"
    using Cons.prems by simp
  then have "foldl (\<lambda>m e. jsmap_set (fst e) (snd e) m) (m @ [e]) es = (m @ [e]) @ es"
    by (rule Cons.IH)
  then show ?case
    using fresh by (simp add: jsmap_set_fresh)
qed

lemma jsmap_new_distinct:
  "distinct (map fst es) \<Longrightarrow> jsmap_new es = es"
  using foldl_jsmap_set_distinct [of "[]" es] by (simp add: jsmap_new_def)

lemma server_tools_entries:
  "server_tools ls = [(''list_my_sheets'', ListMySheetsool ls),
                      (''get_sheet_summary'', GetSheetSummaryTool)]"
  by (simp add: server_tools_def jsmap_new_distinct)

lemma server_tools_get_summary:
  "jsmap_get ''get_sheet_summary'' (server_tools ls) = Some GetSheetSummaryTool"
  by (simp add: server_tools_entries jsmap_get_def)

section \<open>Validation and the credential cache\<close>

lemma default_ttl: "API_KEY_CACHE_TTL None = 300000"
  by (simp add: API_KEY_CACHE_TTL_def parseInt_or_def)

lemma cache_check_Some_iff:
  "cache_check now k s = Some r \<longleftrightarrow>
     jsmap_get k (cache s) = Some r \<and> now - timestamp r < cacheTimeout s"
  by (auto simp: cache_check_def split: option.splits)

lemma cache_check_upstream [simp]:
  "cache_check now k (s\<lparr>upstream := u\<rparr>) = cache_check now k s"
  by (simp add: cache_check_def split: option.splits)

lemma validateAPIKey_hit:
  "cache_check now k s = Some r \<Longrightarrow> validateAPIKey now now' k outcome s = (Inr (Some r), s)"
  by (simp add: validateAPIKey_def validate_begin_def)

lemma validateAPIKey_miss:
  "cache_check now k s = None \<Longrightarrow>
   validateAPIKey now now' k outcome s =
     validate_resume now' k outcome (s\<lparr>upstream := upstream s @ [k]\<rparr>)"
  by (simp add: validateAPIKey_def validate_begin_def)

lemma validate_resume_upstream:
  "upstream (snd (validate_resume now k outcome s)) = upstream s"
  by (simp add: validate_resume_def Let_def split: upstream_outcome.splits option.splits)

lemma validate_resume_result_state_free:
  "fst (validate_resume now k outcome s) = fst (validate_resume now k outcome s')"
  by (simp add: validate_resume_def Let_def split: upstream_outcome.splits option.splits)

text \<open>What the sweep does: it drops exactly the entries older than the timeout.\<close>

lemma cleanup_loop_filter:
  "cleanup_loop now ttl m = filter (\<lambda>e. \<not> now - timestamp (snd e) > ttl) m"
  by (induction m) auto

lemma sample_state_hit: "cache_check 1000 ''gcp_valid1'' sample_state = Some sample_auth"
  by (simp add: cache_check_def jsmap_get_def sample_state_def sample_auth_def default_ttl)

lemma empty_state_miss: "cache_check now k empty_state = None"
  by (simp add: cache_check_def jsmap_get_def empty_state_def)

lemma sample_headers_key: "extractAPIKey sample_headers = Some ''gcp_valid1''"
  by (simp add: extractAPIKey_def sample_headers_def js_or_def nonempty_def startsWith_def)

text \<open>
  Claim C4. A read of the cache (the check that opens \<open>validateAPIKey\<close>) yields a record
  exactly when the key has an entry and \<open>now - timestamp < cacheTimeout\<close>; on such a hit
  \<open>validateAPIKey\<close> returns the record and calls nobody. An entry whose age has reached
  the timeout is not returned: the check misses and the call goes on to the identity
  service, as if the entry were not there. None of this looks at whether the sweep has
  run: also in a swept cache a record that is returned is younger than the timeout.
\<close>

theorem cache_entry_valid_only_within_ttl:
  "(cache_check now k s = Some r \<longleftrightarrow>
      jsmap_get k (cache s) = Some r \<and> now - timestamp r < cacheTimeout s) \<and>
   (cache_check now k s = Some r \<longrightarrow>
      validateAPIKey now now' k outcome s = (Inr (Some r), s)) \<and>
   (jsmap_get k (cache s) = Some r \<and> cacheTimeout s \<le> now - timestamp r \<longrightarrow>
      cache_check now k s = None \<and>
      validateAPIKey now now' k outcome s =
        validate_resume now' k outcome (s\<lparr>upstream := upstream s @ [k]\<rparr>)) \<and>
   (cache_check now k (cleanupCache t s) = Some r \<longrightarrow> now - timestamp r < cacheTimeout s)"
proof (intro conjI impI)
  show "cache_check now k s = Some r \<longleftrightarrow>
      jsmap_get k (cache s) = Some r \<and> now - timestamp r < cacheTimeout s"
    by (rule cache_check_Some_iff)
next
  assume "cache_check now k s = Some r"
  then show "validateAPIKey now now' k outcome s = (Inr (Some r), s)"
    by (rule validateAPIKey_hit)
next
  assume "jsmap_get k (cache s) = Some r \<and> cacheTimeout s \<le> now - timestamp r"
  then show miss: "cache_check now k s = None"
    by (simp add: cache_check_def)
  then show "validateAPIKey now now' k outcome s =
        validate_resume now' k outcome (s\<lparr>upstream := upstream s @ [k]\<rparr>)"
    by (rule validateAPIKey_miss)
next
  assume "cache_check now k (cleanupCache t s) = Some r"
  then have "now - timestamp r < cacheTimeout (cleanupCache t s)"
    by (simp add: cache_check_Some_iff)
  then show "now - timestamp r < cacheTimeout s"
    by (simp add: cleanupCache_def)
qed

theorem cache_entry_valid_only_within_ttl_witness:
  "cache_check 299999 ''gcp_valid1'' sample_state = Some sample_auth \<and>
   validateAPIKey 299999 300005 ''gcp_valid1'' (Rejected None) sample_state
     = (Inr (Some sample_auth), sample_state) \<and>
   cache_check 300000 ''gcp_valid1'' sample_state = None \<and>
   validateAPIKey 300000 300005 ''gcp_valid1'' (Rejected None) sample_state
     = (Inl BackendUnavailable, sample_state\<lparr>upstream := [''gcp_valid1'']\<rparr>)"
proof -
  have g: "jsmap_get ''gcp_valid1'' (cache sample_state) = Some sample_auth"
    by (simp add: jsmap_get_def sample_state_def)
  have t: "timestamp sample_auth = 0" "cacheTimeout sample_state = 300000"
    "upstream sample_state = []"
    by (simp_all add: sample_auth_def sample_state_def default_ttl)
  have r: "validate_resume 300005 ''gcp_valid1'' (Rejected None)
             (sample_state\<lparr>upstream := [''gcp_valid1'']\<rparr>)
           = (Inl BackendUnavailable, sample_state\<lparr>upstream := [''gcp_valid1'']\<rparr>)"
    by (simp add: validate_resume_def)
  show ?thesis
    using cache_entry_valid_only_within_ttl
        [of 299999 "''gcp_valid1''" sample_state sample_auth 300005 "Rejected None"]
      cache_entry_valid_only_within_ttl
        [of 300000 "''gcp_valid1''" sample_state sample_auth 300005 "Rejected None"]
      g t r
    by simp
qed

text \<open>
  Claim C5. When the cache has no valid record for the key and the identity service
  answers \<open>valid: false\<close>, \<open>validateAPIKey\<close> returns \<open>null\<close> and the cache is what it was: the
  only change is the one POST. A validation of the same key that follows (the clock not
  running backwards) posts to the identity service again, whatever the answer will be.
\<close>

theorem invalid_verdict_is_not_cached:
  assumes miss: "cache_check now k s = None" and inv: "\<not> valid d"
  shows "validateAPIKey now now' k (Resolved (Some d)) s
           = (Inr None, s\<lparr>upstream := upstream s @ [k]\<rparr>) \<and>
         cache (snd (validateAPIKey now now' k (Resolved (Some d)) s)) = cache s \<and>
         (now \<le> now2 \<longrightarrow>
            upstream (snd (validateAPIKey now2 now2' k outcome2
                        (snd (validateAPIKey now now' k (Resolved (Some d)) s))))
              = upstream s @ [k, k])"
proof -
  let ?s1 = "s\<lparr>upstream := upstream s @ [k]\<rparr>"
  have first: "validateAPIKey now now' k (Resolved (Some d)) s = (Inr None, ?s1)"
    using miss inv by (simp add: validateAPIKey_miss validate_resume_def)
  have retry: "upstream (snd (validateAPIKey now2 now2' k outcome2 ?s1)) = upstream s @ [k, k]"
    if le: "now \<le> now2"
  proof -
    have "cache_check now2 k s = None"
      using miss le by (auto simp: cache_check_def split: option.splits if_splits)
    then have "cache_check now2 k ?s1 = None" by simp
    then have "validateAPIKey now2 now2' k outcome2 ?s1
                 = validate_resume now2' k outcome2 (?s1\<lparr>upstream := upstream ?s1 @ [k]\<rparr>)"
      by (rule validateAPIKey_miss)
    then show ?thesis by (simp add: validate_resume_upstream)
  qed
  show ?thesis using first retry by simp
qed

theorem invalid_verdict_is_not_cached_witness:
  "validateAPIKey 10 20 ''gcp_revoked'' (Resolved (Some revoked_body)) empty_state
      = (Inr None, empty_state\<lparr>upstream := [''gcp_revoked'']\<rparr>) \<and>
   upstream (snd (validateAPIKey 30 40 ''gcp_revoked'' (Resolved (Some revoked_body))
      (snd (validateAPIKey 10 20 ''gcp_revoked'' (Resolved (Some revoked_body)) empty_state))))
      = [''gcp_revoked'', ''gcp_revoked'']"
proof -
  have m: "cache_check 10 ''gcp_revoked'' empty_state = None"
    by (rule empty_state_miss)
  have v: "\<not> valid revoked_body" by (simp add: revoked_body_def)
  have u: "upstream empty_state = []" by (simp add: empty_state_def)
  note th = invalid_verdict_is_not_cached [OF m v, of 20 30 40 "Resolved (Some revoked_body)"]
  from th have 1:
    "validateAPIKey 10 20 ''gcp_revoked'' (Resolved (Some revoked_body)) empty_state
      = (Inr None, empty_state\<lparr>upstream := [''gcp_revoked'']\<rparr>)"
    using u by simp
  from th have 2:
    "upstream (snd (validateAPIKey 30 40 ''gcp_revoked'' (Resolved (Some revoked_body))
      (snd (validateAPIKey 10 20 ''gcp_revoked'' (Resolved (Some revoked_body)) empty_state))))
      = [''gcp_revoked'', ''gcp_revoked'']"
    using u by (elim conjE) simp
  show ?thesis using 1 2 by blast
qed

text \<open>
  Claim C7. The sweep compares with \<open>>\<close>, the read with \<open><\<close>. An entry whose age equals
  the timeout is expired for the read and yet survives the sweep: with a timeout of
  300000 ms and a record stamped 0, at time 300000 the read misses, and \<open>cleanupCache\<close>
  leaves the cache as it was.
\<close>

theorem cleanupCache_keeps_entry_at_ttl:
  "cache_check 300000 ''gcp_valid1'' sample_state = None \<and>
   cleanupCache 300000 sample_state = sample_state \<and>
   jsmap_get ''gcp_valid1'' (cache (cleanupCache 300000 sample_state)) = Some sample_auth"
  by (simp add: cache_check_def cleanupCache_def jsmap_get_def sample_state_def sample_auth_def
      default_ttl)

section \<open>Requests in flight together\<close>

lemma begin_all_miss:
  "\<forall>now\<in>set nows. cache_check now k s = None \<Longrightarrow>
   begin_all nows k s =
     (replicate (length nows) None, s\<lparr>upstream := upstream s @ replicate (length nows) k\<rparr>)"
proof (induction nows arbitrary: s)
  case Nil
  then show ?case by simp
next
  case (Cons now nows)
  let ?s1 = "s\<lparr>upstream := upstream s @ [k]\<rparr>"
  have b: "validate_begin now k s = (None, ?s1)"
    using Cons.prems by (simp add: validate_begin_def)
  have "\<forall>t\<in>set nows. cache_check t k ?s1 = None"
    using Cons.prems by simp
  then have "begin_all nows k ?s1 =
     (replicate (length nows) None, ?s1\<lparr>upstream := upstream ?s1 @ replicate (length nows) k\<rparr>)"
    by (rule Cons.IH)
  with b show ?case by simp
qed

lemma resume_all_results:
  "fst (resume_all rs k s) = map (\<lambda>r. fst (validate_resume (fst r) k (snd r) s0)) rs"
proof (induction rs arbitrary: s)
  case Nil
  then show ?case by simp
next
  case (Cons r rs)
  obtain now outcome where r: "r = (now, outcome)" by (cases r)
  obtain x s1 where v: "validate_resume now k outcome s = (x, s1)"
    by (cases "validate_resume now k outcome s")
  have x: "x = fst (validate_resume now k outcome s0)"
    using v validate_resume_result_state_free [of now k outcome s s0] by simp
  obtain xs s2 where rr: "resume_all rs k s1 = (xs, s2)"
    by (cases "resume_all rs k s1")
  have "xs = map (\<lambda>r. fst (validate_resume (fst r) k (snd r) s0)) rs"
    using Cons.IH [of s1] rr by simp
  then show ?case using r v x rr by simp
qed

text \<open>
  Claim C1, as the code has it. There is no single-flight: \<open>validateAPIKey\<close> keeps no
  record of a validation in flight, so each of N requests that find no valid record for
  the credential issues its own POST before any answer is back. The identity service
  receives N calls for the credential, and each caller gets the outcome of its own call:
  what a caller is handed depends on its own answer only, not on the state the others
  left or on their answers.
\<close>

theorem concurrent_validations_post_each:
  assumes "\<forall>now\<in>set nows. cache_check now k s = None"
  shows "begin_all nows k s =
           (replicate (length nows) None,
            s\<lparr>upstream := upstream s @ replicate (length nows) k\<rparr>) \<and>
         fst (resume_all rs k s') =
           map (\<lambda>r. fst (validate_resume (fst r) k (snd r) s0)) rs"
proof
  show "begin_all nows k s =
           (replicate (length nows) None,
            s\<lparr>upstream := upstream s @ replicate (length nows) k\<rparr>)"
    using assms by (rule begin_all_miss)
  show "fst (resume_all rs k s') =
           map (\<lambda>r. fst (validate_resume (fst r) k (snd r) s0)) rs"
    by (rule resume_all_results)
qed

theorem concurrent_validations_post_each_witness:
  "begin_all [0, 1, 2] ''gcp_valid1'' empty_state =
     ([None, None, None],
      empty_state\<lparr>upstream := [''gcp_valid1'', ''gcp_valid1'', ''gcp_valid1'']\<rparr>)"
proof -
  have m: "\<forall>now\<in>set [0, 1, 2]. cache_check now ''gcp_valid1'' empty_state = None"
    by (simp add: empty_state_miss)
  have u: "upstream empty_state = []" by (simp add: empty_state_def)
  from concurrent_validations_post_each [OF m]
  have "begin_all [0, 1, 2] ''gcp_valid1'' empty_state =
           (replicate (length [0::int, 1, 2]) None,
            empty_state\<lparr>upstream := upstream empty_state @
                          replicate (length [0::int, 1, 2]) ''gcp_valid1''\<rparr>)"
    by blast
  then show ?thesis using u by (simp add: numeral_3_eq_3)
qed

text \<open>
  Two requests with the same uncached credential, both begun before either is answered:
  the identity service is called twice, not once, and the two callers end differently
  when the two answers differ (here the first is validated and the second finds the
  service unreachable).
\<close>

theorem single_flight_counterexample:
  "upstream (snd (begin_all [0, 1] ''gcp_valid1'' empty_state))
     = [''gcp_valid1'', ''gcp_valid1''] \<and>
   length (upstream (snd (begin_all [0, 1] ''gcp_valid1'' empty_state))) \<noteq> 1 \<and>
   fst (resume_all [(2, Resolved (Some valid_body)), (3, Rejected None)] ''gcp_valid1''
          (snd (begin_all [0, 1] ''gcp_valid1'' empty_state)))
     = [Inr (Some (sample_auth\<lparr>timestamp := 2\<rparr>)), Inl BackendUnavailable]"
  by (simp add: validate_begin_def cache_check_def jsmap_get_def empty_state_def
      validate_resume_def valid_body_def sample_auth_def Let_def)

section \<open>Authentication at the protected endpoints\<close>

lemma header_value_eq:
  "header_value hs a b = nonempty (js_or (hs a) (hs b))"
  by (simp add: header_value_def nonempty_def js_or_def split: option.splits)

lemma extractAPIKey_first_match:
  "extractAPIKey hs = first_match [bearer_prefixed, raw_prefixed, dedicated_header] hs"
  by (simp add: extractAPIKey_def bearer_prefixed_def raw_prefixed_def dedicated_header_def
      header_value_eq split: option.splits)

lemma authenticateRequest_absent:
  "extractAPIKey hs = None \<or> extractAPIKey hs = Some [] \<Longrightarrow>
   authenticateRequest hs now now' outcome s = (None, s)"
  by (auto simp: authenticateRequest_def)

lemma authenticateRequest_hit:
  "extractAPIKey hs = Some k \<Longrightarrow> k \<noteq> [] \<Longrightarrow> cache_check now k s = Some r \<Longrightarrow>
   authenticateRequest hs now now' outcome s = (Some r, s)"
  by (simp add: authenticateRequest_def validateAPIKey_hit)

lemma routes_unauthenticated:
  assumes "authenticateRequest hs now now' outcome s = (None, s1)"
  shows "list_tools_route tools hs now now' outcome s = ((401, AuthenticationRequired), s1)"
    and "initialize_route hs now now' outcome s = ((401, AuthenticationRequired), s1)"
    and "call_tool_route tools exec hs toolName args now now' outcome s
           = ((401, AuthenticationRequired), s1)"
  using assms by (simp_all add: list_tools_route_def initialize_route_def call_tool_route_def)

text \<open>The answers of the identity service after which validation has failed.\<close>

lemma validate_resume_failed:
  assumes "outcome = Rejected st \<or> outcome = Resolved None \<or>
           (\<exists>d. outcome = Resolved (Some d) \<and> \<not> valid d)"
  shows "validate_resume now k outcome s = (Inr None, s) \<or>
         validate_resume now k outcome s = (Inl BackendUnavailable, s)"
  using assms by (auto simp: validate_resume_def split: if_splits)

lemma authenticateRequest_failed:
  assumes k: "extractAPIKey hs = Some k" "k \<noteq> []" and miss: "cache_check now k s = None"
    and out: "outcome = Rejected st \<or> outcome = Resolved None \<or>
           (\<exists>d. outcome = Resolved (Some d) \<and> \<not> valid d)"
  shows "authenticateRequest hs now now' outcome s = (None, s\<lparr>upstream := upstream s @ [k]\<rparr>)"
proof -
  let ?s1 = "s\<lparr>upstream := upstream s @ [k]\<rparr>"
  have v: "validateAPIKey now now' k outcome s = validate_resume now' k outcome ?s1"
    using miss by (rule validateAPIKey_miss)
  from validate_resume_failed [OF out, of now' k ?s1]
  show ?thesis using k v by (auto simp: authenticateRequest_def)
qed

text \<open>
  Claim C9. \<open>extractAPIKey\<close> is the first match of the three strategies in their order:
  Bearer-prefixed \<open>Authorization\<close> (prefix stripped), raw \<open>gcp_\<close> \<open>Authorization\<close>, dedicated
  \<open>X-API-Key\<close>; it returns nothing exactly when none of the three matches, a header with
  an empty value counting as not present. When it returns nothing, and also when it
  returns the empty key of a bare \<open>Bearer \<close> header, each protected endpoint answers 401
  \<open>authentication_required\<close> and nothing else happens.
\<close>

theorem extractAPIKey_priority_order:
  "extractAPIKey hs = first_match [bearer_prefixed, raw_prefixed, dedicated_header] hs \<and>
   (extractAPIKey hs = None \<longleftrightarrow>
      bearer_prefixed hs = None \<and> raw_prefixed hs = None \<and> dedicated_header hs = None) \<and>
   (extractAPIKey hs = None \<or> extractAPIKey hs = Some [] \<longrightarrow>
      list_tools_route tools hs now now' outcome s = ((401, AuthenticationRequired), s) \<and>
      initialize_route hs now now' outcome s = ((401, AuthenticationRequired), s) \<and>
      call_tool_route tools exec hs toolName args now now' outcome s
        = ((401, AuthenticationRequired), s))"
proof (intro conjI impI)
  show "extractAPIKey hs = first_match [bearer_prefixed, raw_prefixed, dedicated_header] hs"
    by (rule extractAPIKey_first_match)
  show "extractAPIKey hs = None \<longleftrightarrow>
      bearer_prefixed hs = None \<and> raw_prefixed hs = None \<and> dedicated_header hs = None"
    by (simp add: extractAPIKey_first_match split: option.splits)
next
  assume "extractAPIKey hs = None \<or> extractAPIKey hs = Some []"
  then have a: "authenticateRequest hs now now' outcome s = (None, s)"
    by (rule authenticateRequest_absent)
  show "list_tools_route tools hs now now' outcome s = ((401, AuthenticationRequired), s)"
    using a by (rule routes_unauthenticated)
  show "initialize_route hs now now' outcome s = ((401, AuthenticationRequired), s)"
    using a by (rule routes_unauthenticated)
  show "call_tool_route tools exec hs toolName args now now' outcome s
        = ((401, AuthenticationRequired), s)"
    using a by (rule routes_unauthenticated)
qed

theorem extractAPIKey_priority_order_witness:
  "extractAPIKey (Map.empty(''authorization'' \<mapsto> ''Bearer gcp_a'', ''x-api-key'' \<mapsto> ''gcp_b''))
     = Some ''gcp_a'' \<and>
   extractAPIKey (Map.empty(''authorization'' \<mapsto> ''gcp_a'', ''x-api-key'' \<mapsto> ''gcp_b''))
     = Some ''gcp_a'' \<and>
   extractAPIKey (Map.empty(''authorization'' \<mapsto> ''Basic x'', ''x-api-key'' \<mapsto> ''gcp_b''))
     = Some ''gcp_b'' \<and>
   extractAPIKey Map.empty = None \<and>
   list_tools_route (server_tools JNull) Map.empty 0 1 (Resolved (Some valid_body)) sample_state
     = ((401, AuthenticationRequired :: unit body), sample_state)"
proof -
  let ?h1 = "Map.empty(''authorization'' \<mapsto> ''Bearer gcp_a'', ''x-api-key'' \<mapsto> ''gcp_b'')"
  let ?h2 = "Map.empty(''authorization'' \<mapsto> ''gcp_a'', ''x-api-key'' \<mapsto> ''gcp_b'')"
  let ?h3 = "Map.empty(''authorization'' \<mapsto> ''Basic x'', ''x-api-key'' \<mapsto> ''gcp_b'')"
  have b: "bearer_prefixed ?h1 = Some ''gcp_a''"
    by (simp add: bearer_prefixed_def header_value_def startsWith_def)
  have r: "bearer_prefixed ?h2 = None" "raw_prefixed ?h2 = Some ''gcp_a''"
    by (simp_all add: bearer_prefixed_def raw_prefixed_def header_value_def startsWith_def)
  have d: "bearer_prefixed ?h3 = None" "raw_prefixed ?h3 = None"
    "dedicated_header ?h3 = Some ''gcp_b''"
    by (simp_all add: bearer_prefixed_def raw_prefixed_def dedicated_header_def header_value_def
        startsWith_def)
  have n: "bearer_prefixed Map.empty = None" "raw_prefixed Map.empty = None"
    "dedicated_header Map.empty = None"
    by (simp_all add: bearer_prefixed_def raw_prefixed_def dedicated_header_def header_value_def
        nonempty_def)
  have 1: "extractAPIKey ?h1 = Some ''gcp_a''"
    using extractAPIKey_priority_order [THEN conjunct1, of ?h1] b by simp
  have 2: "extractAPIKey ?h2 = Some ''gcp_a''"
    using extractAPIKey_priority_order [THEN conjunct1, of ?h2] r by simp
  have 3: "extractAPIKey ?h3 = Some ''gcp_b''"
    using extractAPIKey_priority_order [THEN conjunct1, of ?h3] d by simp
  have 4: "extractAPIKey Map.empty = None"
    using extractAPIKey_priority_order [THEN conjunct2, THEN conjunct1, of Map.empty] n by simp
  have absent: "extractAPIKey Map.empty = None \<or> extractAPIKey Map.empty = Some []"
    using 4 by simp
  have 5: "list_tools_route (server_tools JNull) Map.empty 0 1 (Resolved (Some valid_body))
             sample_state = ((401, AuthenticationRequired :: unit body), sample_state)"
    using extractAPIKey_priority_order
            [THEN conjunct2, THEN conjunct2, rule_format, OF absent, THEN conjunct1]
    by blast
  show ?thesis using 1 2 3 4 5 by blast
qed

text \<open>
  Claim C2, as the code has it. \<open>authenticateRequest\<close> turns every failed validation into
  \<open>null\<close>, the thrown \<open>Backend validation service unavailable\<close> included, and the routes
  answer \<open>null\<close> with 401. So for a credential that the cache does not answer, whether the
  identity service cannot be reached or answers with an error status (\<open>Rejected\<close>, any
  status or none), sends a body that cannot be read or that does not say \<open>valid\<close>, or
  rejects the credential, each protected endpoint answers 401
  \<open>authentication_required\<close>; the one POST is the only other effect. No 503 is sent.
\<close>

theorem failed_validation_answers_401:
  assumes k: "extractAPIKey hs = Some k" "k \<noteq> []" and miss: "cache_check now k s = None"
    and out: "outcome = Rejected st \<or> outcome = Resolved None \<or>
           (\<exists>d. outcome = Resolved (Some d) \<and> \<not> valid d)"
  shows "list_tools_route tools hs now now' outcome s
           = ((401, AuthenticationRequired), s\<lparr>upstream := upstream s @ [k]\<rparr>) \<and>
         initialize_route hs now now' outcome s
           = ((401, AuthenticationRequired), s\<lparr>upstream := upstream s @ [k]\<rparr>) \<and>
         call_tool_route tools exec hs toolName args now now' outcome s
           = ((401, AuthenticationRequired), s\<lparr>upstream := upstream s @ [k]\<rparr>)"
proof -
  have a: "authenticateRequest hs now now' outcome s = (None, s\<lparr>upstream := upstream s @ [k]\<rparr>)"
    using k miss out by (rule authenticateRequest_failed)
  show ?thesis
    by (intro conjI) (rule routes_unauthenticated [OF a])+
qed

theorem failed_validation_answers_401_witness:
  "list_tools_route (server_tools JNull) sample_headers 0 1 (Rejected None) empty_state
     = ((401, AuthenticationRequired :: unit body), empty_state\<lparr>upstream := [''gcp_valid1'']\<rparr>) \<and>
   list_tools_route (server_tools JNull) sample_headers 0 1 (Rejected (Some 503)) empty_state
     = ((401, AuthenticationRequired :: unit body), empty_state\<lparr>upstream := [''gcp_valid1'']\<rparr>) \<and>
   list_tools_route (server_tools JNull) sample_headers 0 1 (Resolved (Some revoked_body))
       empty_state
     = ((401, AuthenticationRequired :: unit body), empty_state\<lparr>upstream := [''gcp_valid1'']\<rparr>)"
proof -
  have ne: "''gcp_valid1'' \<noteq> []" by simp
  have u: "upstream empty_state = []" by (simp add: empty_state_def)
  have o1: "Rejected None = Rejected None \<or> Rejected None = Resolved None \<or>
           (\<exists>d. Rejected None = Resolved (Some d) \<and> \<not> valid d)" by simp
  have o2: "Rejected (Some 503) = Rejected (Some 503) \<or> Rejected (Some 503) = Resolved None \<or>
           (\<exists>d. Rejected (Some 503) = Resolved (Some d) \<and> \<not> valid d)" by simp
  have o3: "Resolved (Some revoked_body) = Rejected None \<or>
            Resolved (Some revoked_body) = Resolved None \<or>
           (\<exists>d. Resolved (Some revoked_body) = Resolved (Some d) \<and> \<not> valid d)"
    by (simp add: revoked_body_def)
  have 1: "list_tools_route (server_tools JNull) sample_headers 0 1 (Rejected None) empty_state
     = ((401, AuthenticationRequired :: unit body), empty_state\<lparr>upstream := [''gcp_valid1'']\<rparr>)"
    using failed_validation_answers_401
            [OF sample_headers_key ne empty_state_miss o1, THEN conjunct1] u
    by simp
  have 2: "list_tools_route (server_tools JNull) sample_headers 0 1 (Rejected (Some 503))
             empty_state
     = ((401, AuthenticationRequired :: unit body), empty_state\<lparr>upstream := [''gcp_valid1'']\<rparr>)"
    using failed_validation_answers_401
            [OF sample_headers_key ne empty_state_miss o2, THEN conjunct1] u
    by simp
  have 3: "list_tools_route (server_tools JNull) sample_headers 0 1
             (Resolved (Some revoked_body)) empty_state
     = ((401, AuthenticationRequired :: unit body), empty_state\<lparr>upstream := [''gcp_valid1'']\<rparr>)"
    using failed_validation_answers_401
            [OF sample_headers_key ne empty_state_miss o3, THEN conjunct1] u
    by simp
  show ?thesis using 1 2 3 by blast
qed

text \<open>
  The identity service times out, or answers 503, or rejects the credential as revoked:
  the status of the tool endpoint is 401 each time, never 503, and the same for all.
\<close>

theorem upstream_unavailable_status_counterexample:
  "fst (fst (call_tool_route (server_tools JNull) backend_401_exec sample_headers
               ''get_sheet_summary'' sample_params 0 1 (Rejected None) empty_state)) = 401 \<and>
   fst (fst (call_tool_route (server_tools JNull) backend_401_exec sample_headers
               ''get_sheet_summary'' sample_params 0 1 (Rejected (Some 503)) empty_state)) = 401 \<and>
   fst (fst (call_tool_route (server_tools JNull) backend_401_exec sample_headers
               ''get_sheet_summary'' sample_params 0 1 (Resolved (Some revoked_body))
               empty_state)) = 401"
  by (simp add: call_tool_route_def authenticateRequest_def sample_headers_key
      validateAPIKey_miss empty_state_miss validate_resume_def revoked_body_def)

section \<open>Tool calls\<close>

lemma call_tool_route_state:
  "snd (call_tool_route tools exec hs toolName args now now' outcome s)
     = snd (authenticateRequest hs now now' outcome s)"
  by (simp add: call_tool_route_def split: prod.splits option.splits sum.splits)

lemma summary_backend_401:
  "GetSheetSummaryTool_execute (BackendStatus 401 None) summary sample_params (Some u)
     = Inl (ToolError AUTHENTICATION_FAILED 401 (ResponseData None))"
  by (simp add: GetSheetSummaryTool_execute_def validateParams_def sample_params_def falsy_def
      makeAgentAPIRequest_def getErrorMessage_def)

lemma backend_401_exec_sample:
  "backend_401_exec t sample_params (auth_user sample_auth)
     = Inl (ToolError AUTHENTICATION_FAILED 401 (ResponseData None))"
  by (simp add: backend_401_exec_def sample_auth_def summary_backend_401)

lemma AUTHENTICATION_FAILED_nonempty: "AUTHENTICATION_FAILED \<noteq> []"
  by (simp add: AUTHENTICATION_FAILED_def)

text \<open>
  Claim C3, as the code has it. The tool endpoint never touches the credential cache
  after authentication: whatever the tool returns or throws, the state it leaves is the
  state \<open>authenticateRequest\<close> left. A 401 of the backend reaches the route as a
  \<open>ToolError\<close> with status 401; for a credential served from the cache the route answers
  401 with the error's message and leaves the cache as it was, so the same read hits
  again. The record stops being served only when its age reaches the timeout.
\<close>

theorem tool_failure_leaves_cache_unchanged:
  "snd (call_tool_route tools exec hs toolName args now now' outcome s)
     = snd (authenticateRequest hs now now' outcome s) \<and>
   makeAgentAPIRequest (BackendStatus 401 mfu) (Some u)
     = Inl (ToolError AUTHENTICATION_FAILED 401 (ResponseData mfu)) \<and>
   (extractAPIKey hs = Some k \<and> k \<noteq> [] \<and> cache_check now k s = Some r \<and>
    jsmap_get toolName tools = Some tool \<and> exec tool args (auth_user r) = Inl (ToolError m 401 d)
    \<longrightarrow> call_tool_route tools exec hs toolName args now now' outcome s
          = ((401, ToolFailure (if m \<noteq> [] then m else ''Tool execution failed'') toolName d), s)
        \<and> cache_check now k (snd (call_tool_route tools exec hs toolName args now now' outcome s))
          = Some r
        \<and> (cacheTimeout s \<le> now2 - timestamp r \<longrightarrow>
             cache_check now2 k
               (snd (call_tool_route tools exec hs toolName args now now' outcome s)) = None))"
proof (intro conjI impI)
  show "snd (call_tool_route tools exec hs toolName args now now' outcome s)
     = snd (authenticateRequest hs now now' outcome s)"
    by (rule call_tool_route_state)
  show "makeAgentAPIRequest (BackendStatus 401 mfu) (Some u)
     = Inl (ToolError AUTHENTICATION_FAILED 401 (ResponseData mfu))"
    by (simp add: makeAgentAPIRequest_def getErrorMessage_def)
next
  assume a: "extractAPIKey hs = Some k \<and> k \<noteq> [] \<and> cache_check now k s = Some r \<and>
    jsmap_get toolName tools = Some tool \<and> exec tool args (auth_user r) = Inl (ToolError m 401 d)"
  then have auth: "authenticateRequest hs now now' outcome s = (Some r, s)"
    by (simp add: authenticateRequest_hit)
  show r: "call_tool_route tools exec hs toolName args now now' outcome s
          = ((401, ToolFailure (if m \<noteq> [] then m else ''Tool execution failed'') toolName d), s)"
    using a auth by (simp add: call_tool_route_def tool_failure_def)
  show "cache_check now k (snd (call_tool_route tools exec hs toolName args now now' outcome s))
          = Some r"
    using a r by simp
  assume "cacheTimeout s \<le> now2 - timestamp r"
  moreover have "jsmap_get k (cache s) = Some r"
    using a by (simp add: cache_check_Some_iff)
  ultimately have "cache_check now2 k s = None"
    by (simp add: cache_check_def)
  then show "cache_check now2 k
               (snd (call_tool_route tools exec hs toolName args now now' outcome s)) = None"
    using r by simp
qed

theorem tool_failure_leaves_cache_unchanged_witness:
  "call_tool_route (server_tools JNull) backend_401_exec
     sample_headers ''get_sheet_summary'' sample_params 1000 1001 (Rejected None) sample_state
   = ((401, ToolFailure AUTHENTICATION_FAILED ''get_sheet_summary'' (ResponseData None)),
      sample_state) \<and>
   cache_check 1000 ''gcp_valid1'' (snd (call_tool_route (server_tools JNull) backend_401_exec
     sample_headers ''get_sheet_summary'' sample_params 1000 1001 (Rejected None) sample_state))
   = Some sample_auth"
proof -
  have pre: "extractAPIKey sample_headers = Some ''gcp_valid1'' \<and> ''gcp_valid1'' \<noteq> [] \<and>
     cache_check 1000 ''gcp_valid1'' sample_state = Some sample_auth \<and>
     jsmap_get ''get_sheet_summary'' (server_tools JNull) = Some GetSheetSummaryTool \<and>
     backend_401_exec GetSheetSummaryTool sample_params (auth_user sample_auth)
     = Inl (ToolError AUTHENTICATION_FAILED 401 (ResponseData None))"
    using sample_headers_key sample_state_hit server_tools_get_summary backend_401_exec_sample
    by simp
  note th = tool_failure_leaves_cache_unchanged [THEN conjunct2, THEN conjunct2, rule_format,
        of sample_headers "''gcp_valid1''" 1000 sample_state sample_auth
           "''get_sheet_summary''" "server_tools JNull" GetSheetSummaryTool
           backend_401_exec sample_params AUTHENTICATION_FAILED "ResponseData None"
           1001 "Rejected None", OF pre]
  have m: "(if AUTHENTICATION_FAILED \<noteq> [] then AUTHENTICATION_FAILED
            else ''Tool execution failed'') = AUTHENTICATION_FAILED"
    using AUTHENTICATION_FAILED_nonempty by simp
  show ?thesis using th unfolding m by blast
qed

text \<open>
  A credential served from the cache, the backend answering the tool's request with 401:
  the endpoint answers 401 and the record of the credential is still in the cache
  afterwards, where a call of \<open>clearCache\<close> would have removed it.
\<close>

theorem revocation_invalidate_counterexample:
  "fst (fst (call_tool_route (server_tools JNull) backend_401_exec
     sample_headers ''get_sheet_summary'' sample_params 1000 1001 (Rejected None) sample_state))
   = 401 \<and>
   jsmap_get ''gcp_valid1'' (cache (snd (call_tool_route (server_tools JNull) backend_401_exec
     sample_headers ''get_sheet_summary'' sample_params 1000 1001 (Rejected None) sample_state)))
   = Some sample_auth \<and>
   jsmap_get ''gcp_valid1'' (cache (clearCache ''gcp_valid1'' sample_state)) = None"
proof -
  have a: "authenticateRequest sample_headers 1000 1001 (Rejected None) sample_state
             = (Some sample_auth, sample_state)"
    by (simp add: authenticateRequest_hit sample_headers_key sample_state_hit)
  have r: "call_tool_route (server_tools JNull) backend_401_exec
     sample_headers ''get_sheet_summary'' sample_params 1000 1001 (Rejected None) sample_state
     = ((401, ToolFailure AUTHENTICATION_FAILED ''get_sheet_summary'' (ResponseData None)),
        sample_state)"
    by (simp add: call_tool_route_def a server_tools_get_summary backend_401_exec_sample
        tool_failure_def AUTHENTICATION_FAILED_nonempty)
  have g: "jsmap_get ''gcp_valid1'' (cache sample_state) = Some sample_auth"
    by (simp add: jsmap_get_def sample_state_def)
  have c: "jsmap_get ''gcp_valid1'' (cache (clearCache ''gcp_valid1'' sample_state)) = None"
    by (simp add: clearCache_def jsmap_delete_def jsmap_get_def sample_state_def)
  show ?thesis using r g c by simp
qed

lemma falsy_iff:
  "falsy v \<longleftrightarrow>
     v \<in> {None, Some JNull, Some (JBool False), Some (JNum 0), Some (JStr [])}"
proof (cases v)
  case None
  then show ?thesis by (simp add: falsy_def)
next
  case (Some j)
  then show ?thesis by (cases j) (auto simp: falsy_def)
qed

text \<open>
  Claim C10. \<open>validateParams\<close> collects, in their order, the required fields whose value
  is absent, \<open>null\<close>, \<open>false\<close>, 0 or the empty string. If there is none it returns; otherwise
  it throws a \<open>ToolError\<close> with status 400 whose message names exactly the collected
  fields, joined by a comma and a space. So a required field that the caller did supply,
  with one of the four falsy values, is reported as missing. \<open>get_sheet_summary\<close> fails in
  this way, before any request to the backend, when \<open>sheet_id\<close> is absent or falsy.
\<close>

theorem validateParams_reports_falsy_required:
  "validateParams ps requiredFields =
     (let missing = filter (\<lambda>field. ps field \<in>
            {None, Some JNull, Some (JBool False), Some (JNum 0), Some (JStr [])}) requiredFields
      in if missing = [] then Inr ()
         else Inl (ToolError (missing_prefix @ join '', '' missing) 400 NoDetails)) \<and>
   (field \<in> set requiredFields \<and>
    ps field \<in> {Some JNull, Some (JBool False), Some (JNum 0), Some (JStr [])} \<longrightarrow>
      (\<exists>missing. validateParams ps requiredFields
                   = Inl (ToolError (missing_prefix @ join '', '' missing) 400 NoDetails) \<and>
                 field \<in> set missing)) \<and>
   (falsy (ps ''sheet_id'') \<longrightarrow>
      GetSheetSummaryTool_execute stateOutcome summary ps usr
        = Inl (ToolError (missing_prefix @ ''sheet_id'') 400 NoDetails))"
proof (intro conjI impI)
  have f: "(\<lambda>field. falsy (ps field)) = (\<lambda>field. ps field \<in>
            {None, Some JNull, Some (JBool False), Some (JNum 0), Some (JStr [])})"
    by (rule ext) (rule falsy_iff)
  show main: "validateParams ps requiredFields =
     (let missing = filter (\<lambda>field. ps field \<in>
            {None, Some JNull, Some (JBool False), Some (JNum 0), Some (JStr [])}) requiredFields
      in if missing = [] then Inr ()
         else Inl (ToolError (missing_prefix @ join '', '' missing) 400 NoDetails))"
    unfolding validateParams_def f by (simp add: Let_def)
  {
    assume a: "field \<in> set requiredFields \<and>
      ps field \<in> {Some JNull, Some (JBool False), Some (JNum 0), Some (JStr [])}"
    let ?missing = "filter (\<lambda>field. ps field \<in>
            {None, Some JNull, Some (JBool False), Some (JNum 0), Some (JStr [])}) requiredFields"
    have m: "field \<in> set ?missing" using a by auto
    then have "?missing \<noteq> []" by (metis empty_iff empty_set)
    then have "validateParams ps requiredFields
                 = Inl (ToolError (missing_prefix @ join '', '' ?missing) 400 NoDetails)"
      using main by (simp add: Let_def)
    then show "\<exists>missing. validateParams ps requiredFields
                   = Inl (ToolError (missing_prefix @ join '', '' missing) 400 NoDetails) \<and>
                 field \<in> set missing"
      using m by blast
  }
  {
    assume "falsy (ps ''sheet_id'')"
    then show "GetSheetSummaryTool_execute stateOutcome summary ps usr
        = Inl (ToolError (missing_prefix @ ''sheet_id'') 400 NoDetails)"
      by (simp add: GetSheetSummaryTool_execute_def validateParams_def)
  }
qed

theorem validateParams_reports_falsy_required_witness:
  "validateParams
     (Map.empty(''a'' \<mapsto> JStr [], ''b'' \<mapsto> JNum 0, ''c'' \<mapsto> JStr ''x'', ''e'' \<mapsto> JNull,
                ''f'' \<mapsto> JBool False))
     [''a'', ''b'', ''c'', ''d'', ''e'', ''f'']
   = Inl (ToolError (missing_prefix @ ''a, b, d, e, f'') 400 NoDetails) \<and>
   validateParams sample_params [''sheet_id''] = Inr () \<and>
   GetSheetSummaryTool_execute BackendNoResponse (\<lambda>d :: string. Inr d)
     (Map.empty(''sheet_id'' \<mapsto> JStr [])) (Some sample_user)
   = Inl (ToolError (missing_prefix @ ''sheet_id'') 400 NoDetails)"
proof -
  let ?ps = "Map.empty(''a'' \<mapsto> JStr [], ''b'' \<mapsto> JNum 0, ''c'' \<mapsto> JStr ''x'', ''e'' \<mapsto> JNull,
                ''f'' \<mapsto> JBool False)"
  have 1: "validateParams ?ps [''a'', ''b'', ''c'', ''d'', ''e'', ''f'']
             = Inl (ToolError (missing_prefix @ ''a, b, d, e, f'') 400 NoDetails)"
    using validateParams_reports_falsy_required
            [THEN conjunct1, of ?ps "[''a'', ''b'', ''c'', ''d'', ''e'', ''f'']"]
    by (simp add: Let_def)
  have 2: "validateParams sample_params [''sheet_id''] = Inr ()"
    using validateParams_reports_falsy_required
            [THEN conjunct1, of sample_params "[''sheet_id'']"]
    by (simp add: Let_def sample_params_def)
  have f: "falsy ((Map.empty(''sheet_id'' \<mapsto> JStr [])) ''sheet_id'')"
    by (simp add: falsy_def)
  have 3: "GetSheetSummaryTool_execute BackendNoResponse (\<lambda>d :: string. Inr d)
     (Map.empty(''sheet_id'' \<mapsto> JStr [])) (Some sample_user)
   = Inl (ToolError (missing_prefix @ ''sheet_id'') 400 NoDetails)"
    using validateParams_reports_falsy_required [THEN conjunct2, THEN conjunct2, rule_format,
        of "Map.empty(''sheet_id'' \<mapsto> JStr [])", OF f] by blast
  show ?thesis using 1 2 3 by blast
qed

section \<open>Tool discovery\<close>

text \<open>
  Claim C8. A registry built from entries with distinct names lists the tools in the
  order of the entries, each descriptor carrying the tool's own name, description and
  input schema: this is the \<open>tools\<close> array of \<open>GET /mcp/schema\<close> and, for an authenticated
  caller, of \<open>GET /mcp/tools\<close>. For the two tools the server registers the list is
  \<open>list_my_sheets\<close>, then \<open>get_sheet_summary\<close>.
\<close>

theorem tool_list_in_registration_order:
  "(distinct (map fst es) \<longrightarrow>
      map getSchema (jsmap_values (jsmap_new es)) =
        map (\<lambda>e. \<lparr>schema_name = name (snd e), schema_description = description (snd e),
                   inputSchema = getInputSchema (snd e)\<rparr>) es \<and>
      schema_route (jsmap_new es) = (200, Schema (map (\<lambda>e. getSchema (snd e)) es)) \<and>
      (authenticateRequest hs now now' outcome s = (Some a, s') \<and> auth_user a = Some u \<longrightarrow>
         list_tools_route (jsmap_new es) hs now now' outcome s =
           ((200, Tools (map (\<lambda>e. getSchema (snd e)) es) (length es) (user_id u)), s'))) \<and>
   map getSchema (jsmap_values (server_tools ls)) =
     [\<lparr>schema_name = ''list_my_sheets'', schema_description = description (ListMySheetsool ls),
       inputSchema = ls\<rparr>,
      \<lparr>schema_name = ''get_sheet_summary'',
       schema_description = description GetSheetSummaryTool,
       inputSchema = getInputSchema GetSheetSummaryTool\<rparr>]"
proof (intro conjI impI)
  assume d: "distinct (map fst es)"
  show "map getSchema (jsmap_values (jsmap_new es)) =
        map (\<lambda>e. \<lparr>schema_name = name (snd e), schema_description = description (snd e),
                   inputSchema = getInputSchema (snd e)\<rparr>) es"
    using d by (simp add: jsmap_new_distinct jsmap_values_def getSchema_def)
  show "schema_route (jsmap_new es) = (200, Schema (map (\<lambda>e. getSchema (snd e)) es))"
    using d by (simp add: jsmap_new_distinct jsmap_values_def schema_route_def)
  assume "authenticateRequest hs now now' outcome s = (Some a, s') \<and> auth_user a = Some u"
  then show "list_tools_route (jsmap_new es) hs now now' outcome s =
           ((200, Tools (map (\<lambda>e. getSchema (snd e)) es) (length es) (user_id u)), s')"
    using d by (simp add: jsmap_new_distinct jsmap_values_def list_tools_route_def)
next
  show "map getSchema (jsmap_values (server_tools ls)) =
     [\<lparr>schema_name = ''list_my_sheets'', schema_description = description (ListMySheetsool ls),
       inputSchema = ls\<rparr>,
      \<lparr>schema_name = ''get_sheet_summary'',
       schema_description = description GetSheetSummaryTool,
       inputSchema = getInputSchema GetSheetSummaryTool\<rparr>]"
    by (simp add: server_tools_entries jsmap_values_def getSchema_def ListMySheetsool_def
        GetSheetSummaryTool_def)
qed

theorem tool_list_in_registration_order_witness:
  "list_tools_route
     (jsmap_new [(''list_my_sheets'', ListMySheetsool JNull),
                 (''get_sheet_summary'', GetSheetSummaryTool)])
     sample_headers 1000 1001 (Rejected None) sample_state
   = ((200, Tools [getSchema (ListMySheetsool JNull), getSchema GetSheetSummaryTool] 2 ''u1''
             :: unit body),
      sample_state)"
proof -
  let ?es = "[(''list_my_sheets'', ListMySheetsool JNull),
              (''get_sheet_summary'', GetSheetSummaryTool)]"
  have d: "distinct (map fst ?es)" by simp
  have a: "authenticateRequest sample_headers 1000 1001 (Rejected None) sample_state
             = (Some sample_auth, sample_state) \<and> auth_user sample_auth = Some sample_user"
    by (simp add: authenticateRequest_hit sample_headers_key sample_state_hit sample_auth_def)
  have u: "user_id sample_user = ''u1''" by (simp add: sample_user_def)
  from tool_list_in_registration_order
         [THEN conjunct1, rule_format, OF d, THEN conjunct2, THEN conjunct2, rule_format, OF a]
  have "list_tools_route (jsmap_new ?es) sample_headers 1000 1001 (Rejected None) sample_state
          = ((200, Tools (map (\<lambda>e. getSchema (snd e)) ?es) (length ?es) (user_id sample_user)
                :: unit body), sample_state)" .
  then show ?thesis using u by simp
qed

section \<open>Rate limiting\<close>























end
